theory Spec2Isabelle
  imports Main "HOL-Library.Sublist"
begin

section \<open>Python values and primitives used by pnp.py\<close>

text \<open>
  Exceptions are values. \<open>ValueError\<close> carries its message, the file errors carry the
  path they were raised for.
\<close>

datatype error =
    ValueError string
  | IndexError
  | OverflowError
  | AssertionError string
  | FileNotFoundError string
  | FileExistsError string
  | UnidentifiedImageError string
  | UnpicklingError string
  | YAMLError string

text \<open>
  A number read from YAML is an \<open>int\<close> or a \<open>float\<close>. Floats stay abstract (type \<open>'f\<close>):
  their arithmetic is a parameter of the model, see \<open>lib\<close> below.
\<close>

datatype 'f pynum = PyInt int | PyFloat 'f

text \<open>
  The slice \<open>xs[:k]\<close>. A negative stop counts from the end; both ends are clamped to the
  list.
\<close>

definition py_slice_to :: "'a list \<Rightarrow> int \<Rightarrow> 'a list" where
  "py_slice_to xs k =
     (if k < 0 then take (nat (int (length xs) + k)) xs else take (nat k) xs)"

text \<open>\<open>s.rfind(c)\<close>: the last index of \<open>c\<close> in \<open>s\<close>, or \<open>-1\<close>.\<close>

definition py_rfind :: "string \<Rightarrow> char \<Rightarrow> int" where
  "py_rfind s c =
     (if c \<in> set s
      then int (length s) - 1 - int (length (takeWhile (\<lambda>x. x \<noteq> c) (rev s)))
      else - 1)"

text \<open>\<open>str(n)\<close> for an integer, as the f-strings of the script format a timestep.\<close>

function str_nat :: "nat \<Rightarrow> string" where
  "str_nat n =
     (if n < 10 then [''0123456789'' ! n]
      else str_nat (n div 10) @ [''0123456789'' ! (n mod 10)])"
  by pat_completeness auto
termination
  by (relation "measure id") auto

declare str_nat.simps [simp del]

definition str_int :: "int \<Rightarrow> string" where
  "str_int i = (if i < 0 then CHR ''-'' # str_nat (nat (- i)) else str_nat (nat i))"

subsection \<open>posixpath\<close>

text \<open>
  \<open>os.path.join(a, *p)\<close>: a component that starts with the separator replaces what came
  before it; otherwise it is appended, after a separator unless the path so far is empty
  or ends with one.
\<close>

definition join2 :: "string \<Rightarrow> string \<Rightarrow> string" where
  "join2 path b =
     (if b \<noteq> [] \<and> hd b = CHR ''/'' then b
      else if path = [] \<or> last path = CHR ''/'' then path @ b
      else path @ ''/'' @ b)"

definition os_path_join :: "string \<Rightarrow> string list \<Rightarrow> string" where
  "os_path_join a p = foldl join2 a p"

text \<open>\<open>os.path.basename(p)\<close> is \<open>p[p.rfind('/') + 1:]\<close>.\<close>

definition os_path_basename :: "string \<Rightarrow> string" where
  "os_path_basename p = drop (nat (py_rfind p CHR ''/'' + 1)) p"

text \<open>
  \<open>os.path.splitext(p)\<close> (the \<open>_splitext\<close> of genericpath): the extension starts at the last dot
  of the last component, unless that component has only dots before it.
\<close>

function splitext_loop :: "string \<Rightarrow> nat \<Rightarrow> nat \<Rightarrow> string \<times> string" where
  "splitext_loop p filenameIndex dotIndex =
     (if filenameIndex < dotIndex
      then (if take 1 (drop filenameIndex p) \<noteq> ''.''
            then (take dotIndex p, drop dotIndex p)
            else splitext_loop p (Suc filenameIndex) dotIndex)
      else (p, []))"
  by pat_completeness auto
termination
  by (relation "measure (\<lambda>(p, i, d). d - i)") auto

declare splitext_loop.simps [simp del]

definition os_path_splitext :: "string \<Rightarrow> string \<times> string" where
  "os_path_splitext p =
     (let sepIndex = py_rfind p CHR ''/'';
          dotIndex = py_rfind p CHR ''.''
      in if dotIndex > sepIndex
         then splitext_loop p (nat (sepIndex + 1)) (nat dotIndex)
         else (p, []))"

subsection \<open>torch.cat and torch.chunk along dimension 0\<close>

text \<open>
  A batched tensor is the list of its rows along dimension 0. \<open>torch.cat\<close> appends the
  batches. \<open>tensor.chunk(n)\<close> cuts the batch into pieces of \<open>ceil(len / n)\<close> rows, the last
  one shorter when the length is not a multiple; there may be fewer than \<open>n\<close> pieces, and
  an empty batch gives \<open>n\<close> empty pieces.
\<close>

definition torch_cat :: "'a list list \<Rightarrow> 'a list" where
  "torch_cat ts = concat ts"

function torch_split :: "nat \<Rightarrow> 'a list \<Rightarrow> 'a list list" where
  "torch_split split_size xs =
     (if split_size = 0 \<or> length xs \<le> split_size then [xs]
      else take split_size xs # torch_split split_size (drop split_size xs))"
  by pat_completeness auto
termination
  by (relation "measure (\<lambda>(n, xs). length xs)") auto

declare torch_split.simps [simp del]

definition torch_chunk :: "nat \<Rightarrow> 'a list \<Rightarrow> 'a list list" where
  "torch_chunk chunks xs =
     (let split_size = (length xs + chunks - 1) div chunks
      in if split_size = 0 \<and> length xs = 0 then replicate chunks []
         else torch_split split_size xs)"


section \<open>The configuration, the files and the libraries\<close>

text \<open>
  The dictionary that \<open>yaml.safe_load\<close> returns, with the twelve keys the script reads, each
  at the type the script uses it at.
\<close>

record 'f config =
  device :: string
  sd_version :: string
  n_timesteps :: int
  prompt :: string
  negative_prompt :: string
  guidance_scale :: "'f pynum"
  pnp_f_t :: "'f pynum"
  pnp_attn_t :: "'f pynum"
  image_path :: string
  latents_path :: string
  output_path :: string
  seed :: int

text \<open>
  A PIL image has a mode, a size (width, height) and pixels; the pixels stay abstract
  (type \<open>'px\<close>).
\<close>

record 'px pil_image =
  im_mode :: string
  im_size :: "nat \<times> nat"
  im_pixels :: 'px

datatype resampling = NEAREST | BILINEAR | BICUBIC | LANCZOS

text \<open>
  What a file holds: text, an image, or a pickled tensor (a batch of rows of type \<open>'r\<close>).
  A file is identified with its path string.
\<close>

datatype ('px, 'r) fdata = Text string | ImageFile "'px pil_image" | TensorFile "'r list"

datatype 'f out = OutStr string | OutConfig "'f config"

text \<open>
  The world outside the process: the files, the directories known to exist, what has been
  printed, and the seed of the random number generators.
\<close>

record ('f, 'px, 'r) world =
  files :: "string \<rightharpoonup> ('px, 'r) fdata"
  dirs :: "string set"
  stdout :: "'f out list"
  seed_state :: "int option"

text \<open>
  The libraries are a parameter of the model. Types: \<open>'f\<close> a float, \<open>'p\<close> a loaded
  pipeline (UNet, VAE, text encoder, with whatever the injection hooks have registered on
  its modules), \<open>'sch\<close> a scheduler, \<open>'e\<close> a row of a text embedding, \<open>'r\<close> a row of a
  latent or noise tensor, \<open>'px\<close> the pixels of a PIL image, \<open>'im\<close> an image tensor.

  \<^item> \<open>float_mul_int n x\<close> is \<open>n * x\<close> for an int and a float, \<open>float_to_int x\<close> is \<open>int(x)\<close>,
    which raises for an infinity or a NaN;
  \<^item> \<open>sd_from_pretrained key\<close> is \<open>StableDiffusionPipeline.from_pretrained(key, ...)\<close>;
    \<open>sdxl_from_pretrained key dev\<close> is \<open>StableDiffusionXLPipeline.from_pretrained(key,
    unet=unet, ...)\<close> for the \<open>unet\<close> that \<open>UNet2DConditionModel.from_pretrained(key,
    ...).to(dev)\<close> returns; \<open>pipe_to\<close> is \<open>pipe.to(...)\<close>;
  \<^item> \<open>sched_timesteps\<close> is \<open>scheduler.timesteps\<close>, \<open>sched_step sch noise t x\<close> is
    \<open>scheduler.step(noise, t, x)['prev_sample']\<close>, \<open>unet p rows t emb\<close> is
    \<open>unet(rows, t, encoder_hidden_states=emb)['sample']\<close>;
  \<^item> \<open>vae_unscale p l\<close> is \<open>1 / vae.config.scaling_factor * l\<close>, \<open>vae_decode p l\<close> is
    \<open>vae.decode(l).sample\<close>, \<open>img_unit_range i\<close> is \<open>(i / 2 + 0.5).clamp(0, 1)\<close>;
  \<^item> \<open>t_add\<close>, \<open>t_sub\<close> and \<open>t_scale\<close> are \<open>+\<close>, \<open>-\<close> and the product by a number, on
    tensors; \<open>latents_to\<close> and \<open>image_to\<close> are \<open>tensor.to(device)\<close>;
  \<^item> \<open>to_tensor\<close> and \<open>to_pil_image\<close> are torchvision's \<open>ToTensor()\<close> and
    \<open>ToPILImage()\<close>.

  The last four fields are the functions of \<open>pnp_utils\<close> that pnp.py calls; that module is
  not part of the sources at hand, so they are parameters as well. The floating-point
  context managers (\<open>torch.no_grad\<close>, \<open>torch.autocast\<close>) and the progress bar have no
  counterpart here.
\<close>

record ('f, 'p, 'sch, 'e, 'r, 'px, 'im) lib =
  float_mul_int :: "int \<Rightarrow> 'f \<Rightarrow> 'f"
  float_to_int :: "'f \<Rightarrow> error + int"
  yaml_safe_load :: "string \<Rightarrow> error + 'f config"
  yaml_dump :: "'f config \<Rightarrow> string"
  sd_from_pretrained :: "string \<Rightarrow> 'p"
  sdxl_from_pretrained :: "string \<Rightarrow> string \<Rightarrow> 'p"
  pipe_to :: "string \<Rightarrow> 'p \<Rightarrow> 'p"
  enable_xformers :: "'p \<Rightarrow> 'p"
  ddim_from_pretrained :: "string \<Rightarrow> 'sch"
  set_timesteps :: "'sch \<Rightarrow> int \<Rightarrow> string \<Rightarrow> 'sch"
  sched_timesteps :: "'sch \<Rightarrow> int list"
  sched_step :: "'sch \<Rightarrow> 'r list \<Rightarrow> int \<Rightarrow> 'r list \<Rightarrow> 'r list"
  encode_prompt :: "'p \<Rightarrow> string \<Rightarrow> string \<Rightarrow> nat \<Rightarrow> 'e list \<times> 'e list \<times> 'e list \<times> 'e list"
  unet :: "'p \<Rightarrow> 'r list \<Rightarrow> int \<Rightarrow> 'e list \<Rightarrow> 'r list"
  vae_unscale :: "'p \<Rightarrow> 'r list \<Rightarrow> 'r list"
  vae_decode :: "'p \<Rightarrow> 'r list \<Rightarrow> 'im list"
  img_unit_range :: "'im list \<Rightarrow> 'im list"
  t_add :: "'r list \<Rightarrow> 'r list \<Rightarrow> 'r list"
  t_sub :: "'r list \<Rightarrow> 'r list \<Rightarrow> 'r list"
  t_scale :: "'f pynum \<Rightarrow> 'r list \<Rightarrow> 'r list"
  latents_to :: "string \<Rightarrow> 'r list \<Rightarrow> 'r list"
  image_to :: "string \<Rightarrow> 'im \<Rightarrow> 'im"
  convert_pixels :: "string \<Rightarrow> string \<Rightarrow> 'px \<Rightarrow> 'px"
  resample_pixels :: "resampling \<Rightarrow> nat \<times> nat \<Rightarrow> nat \<times> nat \<Rightarrow> 'px \<Rightarrow> 'px"
  to_tensor :: "'px pil_image \<Rightarrow> 'im"
  to_pil_image :: "'im \<Rightarrow> 'px pil_image"
  load_source_latents_t :: "(string \<rightharpoonup> ('px, 'r) fdata) \<Rightarrow> int \<Rightarrow> string \<Rightarrow> error + 'r list"
  register_time :: "'p \<Rightarrow> int \<Rightarrow> 'p"
  register_attention_control_efficient :: "'p \<Rightarrow> int list \<Rightarrow> 'p"
  register_conv_control_efficient :: "'p \<Rightarrow> int list \<Rightarrow> 'p"


subsection \<open>File-system and console primitives\<close>



definition print :: "('f, 'px, 'r) world \<Rightarrow> 'f out \<Rightarrow> ('f, 'px, 'r) world" where
  "print w x = w\<lparr>stdout := stdout w @ [x]\<rparr>"


text \<open>\<open>Image.open(path)\<close> and \<open>torch.load(path)\<close> read a file of the right kind.\<close>

definition Image_open ::
  "(string \<rightharpoonup> ('px, 'r) fdata) \<Rightarrow> string \<Rightarrow> error + 'px pil_image" where
  "Image_open fs path =
     (case fs path of
        None \<Rightarrow> Inl (FileNotFoundError path)
      | Some (ImageFile im) \<Rightarrow> Inr im
      | Some _ \<Rightarrow> Inl (UnidentifiedImageError path))"

definition torch_load ::
  "(string \<rightharpoonup> ('px, 'r) fdata) \<Rightarrow> string \<Rightarrow> error + 'r list" where
  "torch_load fs path =
     (case fs path of
        None \<Rightarrow> Inl (FileNotFoundError path)
      | Some (TensorFile t) \<Rightarrow> Inr t
      | Some _ \<Rightarrow> Inl (UnpicklingError path))"

text \<open>
  \<open>image.convert(mode)\<close> and \<open>image.resize(size, resample)\<close>: the new image has the mode,
  respectively the size, that was asked for; what happens to the pixels is the library's.
\<close>

definition pil_convert ::
  "('f, 'p, 'sch, 'e, 'r, 'px, 'im) lib \<Rightarrow> string \<Rightarrow> 'px pil_image \<Rightarrow> 'px pil_image" where
  "pil_convert E mode im =
     \<lparr>im_mode = mode, im_size = im_size im,
      im_pixels = convert_pixels E (im_mode im) mode (im_pixels im)\<rparr>"

definition pil_resize ::
  "('f, 'p, 'sch, 'e, 'r, 'px, 'im) lib \<Rightarrow> nat \<times> nat \<Rightarrow> resampling \<Rightarrow> 'px pil_image
     \<Rightarrow> 'px pil_image" where
  "pil_resize E size' resample im =
     \<lparr>im_mode = im_mode im, im_size = size',
      im_pixels = resample_pixels E resample (im_size im) size' (im_pixels im)\<rparr>"



section \<open>The class PNP\<close>

text \<open>
  The attributes of a \<open>PNP\<close> object. \<open>self.vae\<close>, \<open>self.tokenizer\<close>, \<open>self.text_encoder\<close>
  and \<open>self.unet\<close> are parts of \<open>self.pipe\<close>. The two injection lists exist only after
  \<open>init_pnp\<close>; the constructor leaves them empty here. The method \<open>get_text_embeds\<close> is
  never called and is left out.
\<close>

record ('f, 'p, 'sch, 'e, 'r, 'im) pnp =
  config :: "'f config"
  self_device :: string
  pipe :: 'p
  scheduler :: 'sch
  self_image :: 'im
  eps :: "'r list"
  text_embeds :: "'e list"
  pnp_guidance_embeds :: "'e list"
  qk_injection_timesteps :: "int list"
  conv_injection_timesteps :: "int list"

definition model_key :: "string \<Rightarrow> error + string" where
  "model_key v =
     (if v = ''2.1'' then Inr ''stabilityai/stable-diffusion-2-1-base''
      else if v = ''2.0'' then Inr ''stabilityai/stable-diffusion-2-base''
      else if v = ''1.5'' then Inr ''/home/heyi/llm/stable-diffusion-v1-5''
      else if v = ''xl-base'' then Inr ''/home/heyi/llm/stable-diffusion-xl-base-1.0/''
      else Inl (ValueError (''Stable-diffusion version '' @ v @ '' not supported.'')))"

definition get_text_embeds_xl ::
  "('f, 'p, 'sch, 'e, 'r, 'px, 'im) lib \<Rightarrow> 'p \<Rightarrow> string \<Rightarrow> string \<Rightarrow> nat \<Rightarrow> 'e list" where
  "get_text_embeds_xl E pp prompt' negative_prompt' batch_size =
     (case encode_prompt E pp prompt' negative_prompt' batch_size of
        (prompt_embeds, negative_prompt_embeds, pooled_prompt_embeds,
         negative_pooled_prompt_embeds) \<Rightarrow>
          torch_cat [negative_prompt_embeds, prompt_embeds])"


text \<open>The directory of the cached latents of the source image, as both readers compute it.\<close>

definition latents_dir :: "'f config \<Rightarrow> string" where
  "latents_dir cfg =
     os_path_join (latents_path cfg)
       [fst (os_path_splitext (os_path_basename (image_path cfg)))]"

definition get_data ::
  "('f, 'p, 'sch, 'e, 'r, 'px, 'im) lib \<Rightarrow> 'f config \<Rightarrow> string \<Rightarrow> 'sch
     \<Rightarrow> (string \<rightharpoonup> ('px, 'r) fdata) \<Rightarrow> error + 'im \<times> 'r list" where
  "get_data E cfg dev sch fs =
     (case Image_open fs (image_path cfg) of
        Inl e \<Rightarrow> Inl e
      | Inr opened \<Rightarrow>
          let image = pil_convert E ''RGB'' opened;
              image = pil_resize E (512, 512) LANCZOS image;
              image = image_to E dev (to_tensor E image)
          in (case sched_timesteps E sch of
                [] \<Rightarrow> Inl IndexError
              | t0 # _ \<Rightarrow>
                  let latents_path' =
                        os_path_join (latents_path cfg)
                          [fst (os_path_splitext (os_path_basename (image_path cfg))),
                           ''noisy_latents_'' @ str_int t0 @ ''.pt'']
                  in (case torch_load fs latents_path' of
                        Inl e \<Rightarrow> Inl e
                      | Inr loaded \<Rightarrow> Inr (image, latents_to E dev loaded))))"

text \<open>
  The constructor. It returns the object or the exception, and the world as it is then.
\<close>

definition PNP_init ::
  "('f, 'p, 'sch, 'e, 'r, 'px, 'im) lib \<Rightarrow> 'f config \<Rightarrow> ('f, 'px, 'r) world
     \<Rightarrow> (error + ('f, 'p, 'sch, 'e, 'r, 'im) pnp) \<times> ('f, 'px, 'r) world" where
  "PNP_init E cfg w =
     (let dev = device cfg; v = sd_version cfg
      in case model_key v of
           Inl e \<Rightarrow> (Inl e, w)
         | Inr key \<Rightarrow>
             let w1 = print w (OutStr ''Loading SD model'');
                 pipe0 = (if v = ''xl-base''
                          then pipe_to E ''cuda'' (sdxl_from_pretrained E key dev)
                          else pipe_to E ''cuda'' (sd_from_pretrained E key));
                 pipe1 = enable_xformers E pipe0;
                 sch = set_timesteps E (ddim_from_pretrained E key) (n_timesteps cfg) dev;
                 w2 = print w1 (OutStr ''SD model loaded'')
             in (case get_data E cfg dev sch (files w2) of
                   Inl e \<Rightarrow> (Inl e, w2)
                 | Inr (image', noisy_latent) \<Rightarrow>
                     (case torch_chunk 2 (get_text_embeds_xl E pipe1 [] [] 1) of
                        [] \<Rightarrow> (Inl IndexError, w2)
                      | guidance # _ \<Rightarrow>
                          (Inr \<lparr>config = cfg, self_device = dev, pipe = pipe1,
                                scheduler = sch, self_image = image', eps = noisy_latent,
                                text_embeds =
                                  get_text_embeds_xl E pipe1 (prompt cfg)
                                    (negative_prompt cfg) 1,
                                pnp_guidance_embeds = guidance,
                                qk_injection_timesteps = [],
                                conv_injection_timesteps = []\<rparr>, w2))))"

text \<open>
  Lines 134 to 140 of \<open>denoise_step\<close>: unpack the three chunks of the prediction (a
  \<open>ValueError\<close> when there are not three), combine the last two, step the scheduler.
\<close>

definition perform_guidance ::
  "('f, 'p, 'sch, 'e, 'r, 'px, 'im) lib \<Rightarrow> ('f, 'p, 'sch, 'e, 'r, 'im) pnp
     \<Rightarrow> 'r list \<Rightarrow> int \<Rightarrow> 'r list \<Rightarrow> error + 'r list" where
  "perform_guidance E self x t noise_pred =
     (case torch_chunk 3 noise_pred of
        [_, noise_pred_uncond, noise_pred_cond] \<Rightarrow>
          let noise_pred' =
                t_add E noise_pred_uncond
                  (t_scale E (guidance_scale (config self))
                     (t_sub E noise_pred_cond noise_pred_uncond))
          in Inr (sched_step E (scheduler self) noise_pred' t x)
      | _ \<Rightarrow> Inl (ValueError ''wrong number of values to unpack (expected 3)''))"

text \<open>
  One denoising step. \<open>register_time\<close> patches the modules of the pipeline, so the object
  is returned with the latent.
\<close>

definition denoise_step ::
  "('f, 'p, 'sch, 'e, 'r, 'px, 'im) lib \<Rightarrow> ('f, 'p, 'sch, 'e, 'r, 'im) pnp
     \<Rightarrow> (string \<rightharpoonup> ('px, 'r) fdata) \<Rightarrow> 'r list \<Rightarrow> int
     \<Rightarrow> error + 'r list \<times> ('f, 'p, 'sch, 'e, 'r, 'im) pnp" where
  "denoise_step E self fs x t =
     (case load_source_latents_t E fs t
             (os_path_join (latents_path (config self))
                [fst (os_path_splitext (os_path_basename (image_path (config self))))]) of
        Inl e \<Rightarrow> Inl e
      | Inr source_latents \<Rightarrow>
          let latent_model_input = torch_cat ([source_latents] @ replicate 2 x);
              self1 = self\<lparr>pipe := register_time E (pipe self) t\<rparr>;
              text_embed_input = torch_cat [pnp_guidance_embeds self1, text_embeds self1];
              noise_pred = unet E (pipe self1) latent_model_input t text_embed_input
          in (case perform_guidance E self1 x t noise_pred of
                Inl e \<Rightarrow> Inl e
              | Inr denoised_latent \<Rightarrow> Inr (denoised_latent, self1)))"

definition init_pnp ::
  "('f, 'p, 'sch, 'e, 'r, 'px, 'im) lib \<Rightarrow> ('f, 'p, 'sch, 'e, 'r, 'im) pnp \<Rightarrow> int \<Rightarrow> int
     \<Rightarrow> ('f, 'p, 'sch, 'e, 'r, 'im) pnp" where
  "init_pnp E self conv_injection_t qk_injection_t =
     (let self1 = self\<lparr>qk_injection_timesteps :=
                        (if qk_injection_t \<ge> 0
                         then py_slice_to (sched_timesteps E (scheduler self)) qk_injection_t
                         else [])\<rparr>;
          self2 = self1\<lparr>conv_injection_timesteps :=
                         (if conv_injection_t \<ge> 0
                          then py_slice_to (sched_timesteps E (scheduler self1)) conv_injection_t
                          else [])\<rparr>;
          self3 = self2\<lparr>pipe := register_attention_control_efficient E (pipe self2)
                                   (qk_injection_timesteps self2)\<rparr>
      in self3\<lparr>pipe := register_conv_control_efficient E (pipe self3)
                          (conv_injection_timesteps self3)\<rparr>)"




section \<open>The script\<close>



section \<open>A small instance\<close>

text \<open>
  A toy library on which the model can be run: a float is a number of hundredths, a latent
  row is an integer, an embedding row is the prompt it encodes, a pipeline remembers what
  the hooks registered on it, and a scheduler is its list of timesteps (\<open>20 i + 1\<close>,
  descending). The UNet and the scheduler return one row for each row they are given. \<open>load_source_latents_t\<close> reads \<open>noisy_latents_{t}.pt\<close> in the directory it
  is given.
\<close>

record toy_pipe =
  tp_key :: string
  tp_times :: "int list"
  tp_qk :: "int list"
  tp_conv :: "int list"

definition toy_config :: "int config" where
  "toy_config =
     \<lparr>device = ''cuda'', sd_version = ''xl-base'', n_timesteps = 3, prompt = ''cat'',
      negative_prompt = ''ugly'', guidance_scale = PyFloat 750, pnp_f_t = PyFloat 80,
      pnp_attn_t = PyFloat 50, image_path = ''data/horse.png'', latents_path = ''latents'',
      output_path = ''out'', seed = 1\<rparr>"

text \<open>The same run, but the source image is the picture a previous run has saved.\<close>

definition toy_config_again :: "int config" where
  "toy_config_again = toy_config\<lparr>image_path := ''out/output-cat.png''\<rparr>"

definition toy_lib :: "(int, toy_pipe, int list, string, int, nat, nat) lib" where
  "toy_lib =
     \<lparr>float_mul_int = (\<lambda>n x. n * x),
      float_to_int = (\<lambda>x. Inr (if 0 \<le> x then x div 100 else - ((- x) div 100))),
      yaml_safe_load =
        (\<lambda>txt. if txt = ''horse'' then Inr toy_config
              else if txt = ''again'' then Inr toy_config_again
              else Inl (YAMLError txt)),
      yaml_dump =
        (\<lambda>c. if c = toy_config then ''horse''
            else if c = toy_config_again then ''again'' else ''other''),
      sd_from_pretrained = (\<lambda>key. \<lparr>tp_key = key, tp_times = [], tp_qk = [], tp_conv = []\<rparr>),
      sdxl_from_pretrained =
        (\<lambda>key dev. \<lparr>tp_key = key, tp_times = [], tp_qk = [], tp_conv = []\<rparr>),
      pipe_to = (\<lambda>dev p. p),
      enable_xformers = (\<lambda>p. p),
      ddim_from_pretrained = (\<lambda>key. []),
      set_timesteps = (\<lambda>sch n dev. rev (map (\<lambda>i. 20 * int i + 1) [0..<nat n])),
      sched_timesteps = (\<lambda>sch. sch),
      sched_step = (\<lambda>sch noise t x. map2 (-) x (noise @ replicate (length x) 0)),
      encode_prompt = (\<lambda>p pr neg bs. ([pr], [neg], [pr], [neg])),
      unet =
        (\<lambda>p rows t emb.
           map2 (\<lambda>r e. r + t + int (length e)) rows (emb @ replicate (length rows) [])),
      vae_unscale = (\<lambda>p l. l),
      vae_decode = (\<lambda>p l. map (\<lambda>r. nat \<bar>r\<bar>) l),
      img_unit_range = (\<lambda>l. l),
      t_add = map2 (+),
      t_sub = map2 (-),
      t_scale =
        (\<lambda>g. map (\<lambda>r. case g of PyInt k \<Rightarrow> k * r | PyFloat x \<Rightarrow> (x * r) div 100)),
      latents_to = (\<lambda>dev l. l),
      image_to = (\<lambda>dev i. i),
      convert_pixels = (\<lambda>m m' px. px),
      resample_pixels = (\<lambda>r s s' px. px),
      to_tensor = im_pixels,
      to_pil_image = (\<lambda>i. \<lparr>im_mode = ''RGB'', im_size = (512, 512), im_pixels = i\<rparr>),
      load_source_latents_t =
        (\<lambda>fs t dir.
           torch_load fs (os_path_join dir [''noisy_latents_'' @ str_int t @ ''.pt''])),
      register_time = (\<lambda>p t. p\<lparr>tp_times := tp_times p @ [t]\<rparr>),
      register_attention_control_efficient = (\<lambda>p ts. p\<lparr>tp_qk := ts\<rparr>),
      register_conv_control_efficient = (\<lambda>p ts. p\<lparr>tp_conv := ts\<rparr>)\<rparr>"

definition toy_files :: "string \<rightharpoonup> (nat, int) fdata" where
  "toy_files =
     [''cfg.yaml'' \<mapsto> Text ''horse'',
      ''again.yaml'' \<mapsto> Text ''again'',
      ''data/horse.png'' \<mapsto>
        ImageFile \<lparr>im_mode = ''L'', im_size = (640, 480), im_pixels = 9\<rparr>,
      ''out/output-cat.png'' \<mapsto>
        ImageFile \<lparr>im_mode = ''RGB'', im_size = (512, 512), im_pixels = 8\<rparr>,
      ''latents/horse/noisy_latents_41.pt'' \<mapsto> TensorFile [5],
      ''latents/horse/noisy_latents_21.pt'' \<mapsto> TensorFile [4],
      ''latents/horse/noisy_latents_1.pt'' \<mapsto> TensorFile [3],
      ''latents/output-cat/noisy_latents_41.pt'' \<mapsto> TensorFile [7],
      ''latents/output-cat/noisy_latents_21.pt'' \<mapsto> TensorFile [6],
      ''latents/output-cat/noisy_latents_1.pt'' \<mapsto> TensorFile [2]]"

definition toy_world :: "(int, nat, int) world" where
  "toy_world = \<lparr>files = toy_files, dirs = {}, stdout = [], seed_state = None\<rparr>"

text \<open>The object that the constructor builds from \<open>toy_config\<close>.\<close>

definition toy_pnp :: "(int, toy_pipe, int list, string, int, nat) pnp" where
  "toy_pnp =
     \<lparr>config = toy_config, self_device = ''cuda'',
      pipe = \<lparr>tp_key = ''/home/heyi/llm/stable-diffusion-xl-base-1.0/'', tp_times = [],
              tp_qk = [], tp_conv = []\<rparr>,
      scheduler = [41, 21, 1], self_image = 9, eps = [5],
      text_embeds = [''ugly'', ''cat''], pnp_guidance_embeds = [[]],
      qk_injection_timesteps = [], conv_injection_timesteps = []\<rparr>"

section \<open>Slicing and the injection timesteps\<close>

lemma py_slice_to_nonneg: "0 \<le> k \<Longrightarrow> py_slice_to xs k = take (nat k) xs"
  by (simp add: py_slice_to_def)

lemma py_slice_to_neg: "k < 0 \<Longrightarrow> py_slice_to xs k = take (length xs - nat (- k)) xs"
proof -
  assume neg: "k < 0"
  then have "nat (int (length xs) + k) = length xs - nat (- k)"
    by linarith
  with neg show ?thesis
    by (simp add: py_slice_to_def)
qed

lemma py_slice_to_minus_one: "py_slice_to xs (- 1) = butlast xs"
  by (simp add: py_slice_to_neg butlast_conv_take)

lemma init_pnp_qk:
  "qk_injection_timesteps (init_pnp E self c q) =
     take (nat q) (sched_timesteps E (scheduler self))"
  by (simp add: init_pnp_def Let_def py_slice_to_def)

lemma init_pnp_conv:
  "conv_injection_timesteps (init_pnp E self c q) =
     take (nat c) (sched_timesteps E (scheduler self))"
  by (simp add: init_pnp_def Let_def py_slice_to_def)



text \<open>
  Claim C10. Whatever integers \<open>init_pnp\<close> is called with, both injection lists are
  prefixes of \<open>scheduler.timesteps\<close>: empty for an argument that is negative or zero, the
  whole list for an argument of at least its length, which is \<open>n_timesteps\<close> when the
  scheduler was set to that many steps. The last two lines are what the slice alone would
  select for a negative argument, were it not for the guard: all but the last elements.
\<close>

theorem init_pnp_injection_prefix:
  "prefix (conv_injection_timesteps (init_pnp E self c q)) (sched_timesteps E (scheduler self))
   \<and> prefix (qk_injection_timesteps (init_pnp E self c q)) (sched_timesteps E (scheduler self))
   \<and> (c \<le> 0 \<longrightarrow> conv_injection_timesteps (init_pnp E self c q) = [])
   \<and> (q \<le> 0 \<longrightarrow> qk_injection_timesteps (init_pnp E self c q) = [])
   \<and> (int (length (sched_timesteps E (scheduler self))) \<le> c \<longrightarrow>
        conv_injection_timesteps (init_pnp E self c q) = sched_timesteps E (scheduler self))
   \<and> (int (length (sched_timesteps E (scheduler self))) \<le> q \<longrightarrow>
        qk_injection_timesteps (init_pnp E self c q) = sched_timesteps E (scheduler self))
   \<and> (length (sched_timesteps E (scheduler self)) = nat (n_timesteps (config self))
        \<and> n_timesteps (config self) \<le> c \<longrightarrow>
        conv_injection_timesteps (init_pnp E self c q) = sched_timesteps E (scheduler self))
   \<and> (length (sched_timesteps E (scheduler self)) = nat (n_timesteps (config self))
        \<and> n_timesteps (config self) \<le> q \<longrightarrow>
        qk_injection_timesteps (init_pnp E self c q) = sched_timesteps E (scheduler self))
   \<and> (c < 0 \<longrightarrow>
        py_slice_to (sched_timesteps E (scheduler self)) c =
          take (length (sched_timesteps E (scheduler self)) - nat (- c))
            (sched_timesteps E (scheduler self)))
   \<and> (q < 0 \<longrightarrow>
        py_slice_to (sched_timesteps E (scheduler self)) q =
          take (length (sched_timesteps E (scheduler self)) - nat (- q))
            (sched_timesteps E (scheduler self)))"
  by (auto simp add: init_pnp_qk init_pnp_conv py_slice_to_neg take_is_prefix nat_mono)

theorem init_pnp_injection_prefix_witness:
  "conv_injection_timesteps (init_pnp toy_lib toy_pnp (- 1) 3) = []
   \<and> qk_injection_timesteps (init_pnp toy_lib toy_pnp (- 1) 3) = [41, 21, 1]
   \<and> py_slice_to [41, 21, 1 :: int] (- 1) = [41, 21]
   \<and> conv_injection_timesteps (init_pnp toy_lib toy_pnp 7 0) = [41, 21, 1]
   \<and> qk_injection_timesteps (init_pnp toy_lib toy_pnp 7 0) = []"
  using init_pnp_injection_prefix [of toy_lib toy_pnp "- 1" 3]
        init_pnp_injection_prefix [of toy_lib toy_pnp 7 0]
  by (simp add: toy_lib_def toy_pnp_def toy_config_def)



section \<open>The constructor\<close>

lemma model_key_Inl_iff:
  "(\<exists>e. model_key v = Inl e) \<longleftrightarrow> v \<notin> {''2.1'', ''2.0'', ''1.5'', ''xl-base''}"
  by (simp add: model_key_def)







lemma pil_resize_convert:
  "im_mode (pil_resize E sz r (pil_convert E m im)) = m"
  "im_size (pil_resize E sz r (pil_convert E m im)) = sz"
  "im_pixels (pil_resize E sz r (pil_convert E m im)) =
     resample_pixels E r (im_size im) sz (convert_pixels E (im_mode im) m (im_pixels im))"
  by (simp_all add: pil_resize_def pil_convert_def)

lemma get_data_Inr:
  assumes "fs (image_path cfg) = Some (ImageFile opened)"
    and "sched_timesteps E sch = t0 # rest"
    and "fs (os_path_join (latents_path cfg)
               [fst (os_path_splitext (os_path_basename (image_path cfg))),
                ''noisy_latents_'' @ str_int t0 @ ''.pt'']) = Some (TensorFile loaded)"
  shows "get_data E cfg dev sch fs =
           Inr (image_to E dev
                  (to_tensor E (pil_resize E (512, 512) LANCZOS (pil_convert E ''RGB'' opened))),
                latents_to E dev loaded)"
  using assms by (simp add: get_data_def Image_open_def torch_load_def Let_def)

lemma get_data_InrD:
  assumes "get_data E cfg dev sch fs = Inr (im, noisy)"
  shows "\<exists>opened t0 rest loaded.
           fs (image_path cfg) = Some (ImageFile opened)
         \<and> sched_timesteps E sch = t0 # rest
         \<and> fs (os_path_join (latents_path cfg)
                 [fst (os_path_splitext (os_path_basename (image_path cfg))),
                  ''noisy_latents_'' @ str_int t0 @ ''.pt'']) = Some (TensorFile loaded)
         \<and> im = image_to E dev
                  (to_tensor E (pil_resize E (512, 512) LANCZOS (pil_convert E ''RGB'' opened)))
         \<and> noisy = latents_to E dev loaded"
  using assms
  by (auto simp add: get_data_def Image_open_def torch_load_def Let_def
      split: option.splits fdata.splits list.splits sum.splits)

lemma PNP_init_InrD:
  assumes "PNP_init E cfg w = (Inr self, w')"
  shows "\<exists>key sch. model_key (sd_version cfg) = Inr key
         \<and> sch = set_timesteps E (ddim_from_pretrained E key) (n_timesteps cfg) (device cfg)
         \<and> get_data E cfg (device cfg) sch (files w) = Inr (self_image self, eps self)
         \<and> config self = cfg \<and> self_device self = device cfg \<and> scheduler self = sch
         \<and> w' = print (print w (OutStr ''Loading SD model'')) (OutStr ''SD model loaded'')"
  using assms
  by (auto simp add: PNP_init_def Let_def print_def split: sum.splits list.splits prod.splits)

text \<open>
  Claim C8. Whatever the mode and the size of the source image, \<open>get_data\<close> returns the
  tensor, moved to the device it is given, of an image of mode RGB and size 512 by 512,
  obtained from the opened one by \<open>convert('RGB')\<close> and then a LANCZOS \<open>resize\<close>. The
  constructor calls it with \<open>config['device']\<close>.
\<close>

theorem get_data_rgb_512_lanczos:
  assumes "fs (image_path cfg) = Some (ImageFile opened)"
    and "sched_timesteps E sch = t0 # rest"
    and "fs (os_path_join (latents_path cfg)
               [fst (os_path_splitext (os_path_basename (image_path cfg))),
                ''noisy_latents_'' @ str_int t0 @ ''.pt'']) = Some (TensorFile loaded)"
  shows "\<exists>resized.
           resized = pil_resize E (512, 512) LANCZOS (pil_convert E ''RGB'' opened)
         \<and> get_data E cfg dev sch fs =
             Inr (image_to E dev (to_tensor E resized), latents_to E dev loaded)
         \<and> im_mode resized = ''RGB''
         \<and> im_size resized = (512, 512)
         \<and> im_pixels resized =
             resample_pixels E LANCZOS (im_size opened) (512, 512)
               (convert_pixels E (im_mode opened) ''RGB'' (im_pixels opened))
         \<and> (\<forall>w self w'. files w = fs \<and> PNP_init E cfg w = (Inr self, w') \<longrightarrow>
               self_device self = device cfg
             \<and> self_image self = image_to E (device cfg) (to_tensor E resized))"
proof -
  let ?R = "pil_resize E (512, 512) LANCZOS (pil_convert E ''RGB'' opened)"
  have a: "get_data E cfg dev sch fs =
             Inr (image_to E dev (to_tensor E ?R), latents_to E dev loaded)"
    using assms by (rule get_data_Inr)
  have b: "self_device self = device cfg
         \<and> self_image self = image_to E (device cfg) (to_tensor E ?R)"
    if "files w = fs" and "PNP_init E cfg w = (Inr self, w')" for w self w'
  proof -
    from PNP_init_InrD [OF that(2)] obtain sch' where
      g: "get_data E cfg (device cfg) sch' (files w) = Inr (self_image self, eps self)"
      and d: "self_device self = device cfg"
      by blast
    from get_data_InrD [OF g] obtain opened' where
      "files w (image_path cfg) = Some (ImageFile opened')"
      "self_image self = image_to E (device cfg)
         (to_tensor E (pil_resize E (512, 512) LANCZOS (pil_convert E ''RGB'' opened')))"
      by blast
    with that(1) assms(1) d show ?thesis by simp
  qed
  show ?thesis
    using a b by (auto simp add: pil_resize_convert)
qed

theorem get_data_rgb_512_lanczos_witness:
  "get_data toy_lib toy_config ''cuda'' [41, 21, 1] toy_files = Inr (9, [5])
   \<and> self_image toy_pnp = 9
   \<and> im_mode (pil_resize toy_lib (512, 512) LANCZOS
        (pil_convert toy_lib ''RGB'' \<lparr>im_mode = ''L'', im_size = (640, 480), im_pixels = 9\<rparr>))
       = ''RGB''
   \<and> im_size (pil_resize toy_lib (512, 512) LANCZOS
        (pil_convert toy_lib ''RGB'' \<lparr>im_mode = ''L'', im_size = (640, 480), im_pixels = 9\<rparr>))
       = (512, 512)"
proof -
  have 1: "toy_files (image_path toy_config) =
             Some (ImageFile \<lparr>im_mode = ''L'', im_size = (640, 480), im_pixels = 9\<rparr>)"
    by (simp add: toy_files_def toy_config_def)
  have 2: "sched_timesteps toy_lib [41, 21, 1] = 41 # [21, 1]"
    by (simp add: toy_lib_def)
  have 3: "toy_files (os_path_join (latents_path toy_config)
               [fst (os_path_splitext (os_path_basename (image_path toy_config))),
                ''noisy_latents_'' @ str_int 41 @ ''.pt'']) = Some (TensorFile [5])"
    by code_simp
  have "fst (PNP_init toy_lib toy_config toy_world) = Inr toy_pnp"
    by code_simp
  then obtain w' where 4: "PNP_init toy_lib toy_config toy_world = (Inr toy_pnp, w')"
    by (cases "PNP_init toy_lib toy_config toy_world") simp
  have 5: "files toy_world = toy_files"
    by (simp add: toy_world_def)
  show ?thesis
    using 4 5 get_data_rgb_512_lanczos [OF 1 2 3, of "''cuda''"]
    by (simp add: toy_lib_def toy_pnp_def)
qed

section \<open>The cached latents and the denoising step\<close>

lemma drop_length_takeWhile_rev:
  "drop (length p - length (takeWhile P (rev p))) p = rev (takeWhile P (rev p))"
proof -
  have "rev (takeWhile P (rev p)) = rev (take (length (takeWhile P (rev p))) (rev p))"
    by (simp add: takeWhile_eq_take [symmetric])
  also have "\<dots> = drop (length p - length (takeWhile P (rev p))) p"
    by (simp add: rev_take)
  finally show ?thesis by simp
qed

lemma os_path_basename_no_sep: "CHR ''/'' \<notin> set (os_path_basename p)"
proof (cases "CHR ''/'' \<in> set p")
  case False
  then show ?thesis
    by (simp add: os_path_basename_def py_rfind_def)
next
  case True
  let ?n = "length (takeWhile (\<lambda>x. x \<noteq> CHR ''/'') (rev p))"
  have "?n \<le> length p"
    using length_takeWhile_le [of _ "rev p"] by simp
  then have "nat (int (length p) - 1 - int ?n + 1) = length p - ?n"
    by linarith
  with True have "os_path_basename p = rev (takeWhile (\<lambda>x. x \<noteq> CHR ''/'') (rev p))"
    by (simp add: os_path_basename_def py_rfind_def drop_length_takeWhile_rev)
  moreover have "CHR ''/'' \<notin> set (takeWhile (\<lambda>x. x \<noteq> CHR ''/'') (rev p))"
    using set_takeWhileD by fastforce
  ultimately show ?thesis by simp
qed

lemma splitext_loop_prefix: "prefix (fst (splitext_loop p i d)) p"
proof (induction p i d rule: splitext_loop.induct)
  case (1 p filenameIndex dotIndex)
  then show ?case
    by (subst splitext_loop.simps) (simp add: take_is_prefix)
qed

lemma os_path_splitext_prefix: "prefix (fst (os_path_splitext p)) p"
  by (simp add: os_path_splitext_def Let_def splitext_loop_prefix)

lemma stem_no_sep: "CHR ''/'' \<notin> set (fst (os_path_splitext (os_path_basename p)))"
  using os_path_splitext_prefix [of "os_path_basename p"] os_path_basename_no_sep [of p]
  by (meson set_mono_prefix subsetD)

lemma join2_relative:
  "b = [] \<or> hd b \<noteq> CHR ''/'' \<Longrightarrow>
     join2 a b = a @ (if a = [] \<or> last a = CHR ''/'' then [] else ''/'') @ b"
  by (auto simp add: join2_def)

lemma latents_dir_eq:
  "latents_dir cfg =
     latents_path cfg
       @ (if latents_path cfg = [] \<or> last (latents_path cfg) = CHR ''/'' then [] else ''/'')
       @ fst (os_path_splitext (os_path_basename (image_path cfg)))"
proof -
  let ?stem = "fst (os_path_splitext (os_path_basename (image_path cfg)))"
  have "?stem = [] \<or> hd ?stem \<noteq> CHR ''/''"
    using stem_no_sep [of "image_path cfg"] by (cases ?stem) auto
  then show ?thesis
    by (simp add: latents_dir_def os_path_join_def join2_relative del: append_assoc)
qed

lemma latents_file_eq:
  "os_path_join (latents_path cfg)
     [fst (os_path_splitext (os_path_basename (image_path cfg))),
      ''noisy_latents_'' @ str_int t @ ''.pt'']
   = latents_dir cfg
       @ (if latents_dir cfg = [] \<or> last (latents_dir cfg) = CHR ''/'' then [] else ''/'')
       @ ''noisy_latents_'' @ str_int t @ ''.pt''"
proof -
  have "os_path_join (latents_path cfg)
     [fst (os_path_splitext (os_path_basename (image_path cfg))),
      ''noisy_latents_'' @ str_int t @ ''.pt'']
    = join2 (latents_dir cfg) (''noisy_latents_'' @ str_int t @ ''.pt'')"
    by (simp add: latents_dir_def os_path_join_def)
  also have "\<dots> = latents_dir cfg
       @ (if latents_dir cfg = [] \<or> last (latents_dir cfg) = CHR ''/'' then [] else ''/'')
       @ ''noisy_latents_'' @ str_int t @ ''.pt''"
    by (rule join2_relative) simp
  finally show ?thesis .
qed

lemma denoise_step_loaded:
  assumes "load_source_latents_t E fs t (latents_dir (config self)) = Inr src"
  shows "denoise_step E self fs x t =
     (case perform_guidance E (self\<lparr>pipe := register_time E (pipe self) t\<rparr>) x t
             (unet E (register_time E (pipe self) t) (src @ x @ x) t
                (pnp_guidance_embeds self @ text_embeds self)) of
        Inl e \<Rightarrow> Inl e
      | Inr d \<Rightarrow> Inr (d, self\<lparr>pipe := register_time E (pipe self) t\<rparr>))"
  using assms
  by (simp add: denoise_step_def latents_dir_def Let_def torch_cat_def numeral_2_eq_2)

lemma denoise_step_load_failed:
  assumes "load_source_latents_t E fs t (latents_dir (config self)) = Inl e"
  shows "denoise_step E self fs x t = Inl e"
  using assms by (simp add: denoise_step_def latents_dir_def)

lemma torch_chunk_3:
  assumes "length xs = 3 * B"
  shows "torch_chunk 3 xs = [take B xs, take B (drop B xs), drop (2 * B) xs]"
proof (cases "B = 0")
  case True
  with assms have xs: "xs = []" by simp
  have r: "replicate 3 ([] :: 'a list) = [[], [], []]"
    by (simp add: numeral_3_eq_3)
  have "torch_chunk 3 ([] :: 'a list) = [[], [], []]"
    unfolding torch_chunk_def by (simp add: r)
  with xs True show ?thesis by simp
next
  case False
  have sz: "(length xs + 3 - 1) div 3 = B"
    using assms by simp
  have "torch_split B xs = take B xs # torch_split B (drop B xs)"
    using assms False by (subst torch_split.simps) simp
  also have "torch_split B (drop B xs) = take B (drop B xs) # torch_split B (drop B (drop B xs))"
    using assms False by (subst torch_split.simps) simp
  also have "torch_split B (drop B (drop B xs)) = [drop (2 * B) xs]"
    using assms False by (subst torch_split.simps) (simp add: mult_2)
  finally show ?thesis
    using False sz by (simp add: torch_chunk_def)
qed

lemma perform_guidance_3:
  assumes "length noise_pred = 3 * length x"
  shows "perform_guidance E self x t noise_pred =
     Inr (sched_step E (scheduler self)
            (t_add E (take (length x) (drop (length x) noise_pred))
               (t_scale E (guidance_scale (config self))
                  (t_sub E (drop (2 * length x) noise_pred)
                     (take (length x) (drop (length x) noise_pred)))))
            t x)"
  by (simp add: perform_guidance_def torch_chunk_3 [OF assms] Let_def)

lemma denoise_step_guided:
  assumes "load_source_latents_t E fs t (latents_dir (config self)) = Inr src"
    and "length src = length x"
    and "length (unet E (register_time E (pipe self) t) (src @ x @ x) t
                   (pnp_guidance_embeds self @ text_embeds self)) = length (src @ x @ x)"
  shows "denoise_step E self fs x t =
     Inr (sched_step E (scheduler self)
            (t_add E
               (take (length x) (drop (length x)
                  (unet E (register_time E (pipe self) t) (src @ x @ x) t
                     (pnp_guidance_embeds self @ text_embeds self))))
               (t_scale E (guidance_scale (config self))
                  (t_sub E
                     (drop (2 * length x)
                        (unet E (register_time E (pipe self) t) (src @ x @ x) t
                           (pnp_guidance_embeds self @ text_embeds self)))
                     (take (length x) (drop (length x)
                        (unet E (register_time E (pipe self) t) (src @ x @ x) t
                           (pnp_guidance_embeds self @ text_embeds self)))))))
            t x,
          self\<lparr>pipe := register_time E (pipe self) t\<rparr>)"
proof -
  have "length (unet E (register_time E (pipe self) t) (src @ x @ x) t
                   (pnp_guidance_embeds self @ text_embeds self)) = 3 * length x"
    using assms(2,3) by simp
  then show ?thesis
    by (simp add: denoise_step_loaded [OF assms(1)] perform_guidance_3)
qed

text \<open>
  Claim C4. When the source latents and the current latent have as many rows, and the UNet
  returns a row for every row of its input, its prediction is cut into three chunks of that
  many rows each: the rows that answer the source latents, those that answer the first copy
  of the latent (paired with the negative-prompt embedding) and those that answer the second
  copy (paired with the prompt embedding). The first chunk is not used; the step returns the
  scheduler's \<open>prev_sample\<close> for \<open>uncond + guidance_scale * (cond - uncond)\<close>, the timestep
  and the current latent.
\<close>

theorem denoise_step_guidance:
  assumes "load_source_latents_t E fs t (latents_dir (config self)) = Inr src"
    and "length src = length x"
    and "length (unet E (register_time E (pipe self) t) (src @ x @ x) t
                   (pnp_guidance_embeds self @ text_embeds self)) = length (src @ x @ x)"
  shows "\<exists>noise_pred source_pred uncond cond.
           noise_pred = unet E (register_time E (pipe self) t) (src @ x @ x) t
                          (pnp_guidance_embeds self @ text_embeds self)
         \<and> torch_chunk 3 noise_pred = [source_pred, uncond, cond]
         \<and> source_pred = take (length x) noise_pred
         \<and> uncond = take (length x) (drop (length x) noise_pred)
         \<and> cond = drop (2 * length x) noise_pred
         \<and> denoise_step E self fs x t =
             Inr (sched_step E (scheduler self)
                    (t_add E uncond
                       (t_scale E (guidance_scale (config self)) (t_sub E cond uncond)))
                    t x,
                  self\<lparr>pipe := register_time E (pipe self) t\<rparr>)"
proof -
  let ?np = "unet E (register_time E (pipe self) t) (src @ x @ x) t
               (pnp_guidance_embeds self @ text_embeds self)"
  have "length ?np = 3 * length x"
    using assms(2,3) by simp
  then have "torch_chunk 3 ?np =
      [take (length x) ?np, take (length x) (drop (length x) ?np), drop (2 * length x) ?np]"
    by (rule torch_chunk_3)
  with denoise_step_guided [OF assms] show ?thesis
    by blast
qed

theorem denoise_step_guidance_witness:
  "load_source_latents_t toy_lib toy_files 41 (latents_dir (config toy_pnp)) = Inr [5]
   \<and> unet toy_lib (register_time toy_lib (pipe toy_pnp) 41) ([5] @ [5] @ [5]) 41
        (pnp_guidance_embeds toy_pnp @ text_embeds toy_pnp) = [46, 50, 49]
   \<and> torch_chunk 3 [46, 50, 49 :: int] = [[46], [50], [49]]
   \<and> fst (projr (denoise_step toy_lib toy_pnp toy_files [5] 41)) = [- 37]"
proof -
  have 1: "load_source_latents_t toy_lib toy_files 41 (latents_dir (config toy_pnp)) = Inr [5]"
    by code_simp
  have 2: "length [5 :: int] = length [5 :: int]"
    by simp
  have u: "unet toy_lib (register_time toy_lib (pipe toy_pnp) 41) ([5] @ [5] @ [5]) 41
        (pnp_guidance_embeds toy_pnp @ text_embeds toy_pnp) = [46, 50, 49]"
    by (simp add: toy_lib_def toy_pnp_def)
  then have 3: "length (unet toy_lib (register_time toy_lib (pipe toy_pnp) 41) ([5] @ [5] @ [5]) 41
        (pnp_guidance_embeds toy_pnp @ text_embeds toy_pnp)) = length ([5 :: int] @ [5] @ [5])"
    by simp
  have g: "t_add toy_lib [50] (t_scale toy_lib (guidance_scale (config toy_pnp))
             (t_sub toy_lib [49] [50])) = [42]"
    by (simp add: toy_lib_def toy_pnp_def toy_config_def)
  have s: "sched_step toy_lib (scheduler toy_pnp) [42] 41 [5] = [- 37]"
    by (simp add: toy_lib_def)
  show ?thesis
    using 1 u denoise_step_guidance [OF 1 2 3] g s
    by auto
qed

text \<open>
  Claim C3. The directory of the cached latents is \<open>latents_path\<close>, a separator where one is
  needed, and the basename of the image path without its extension. The initial latent
  that \<open>get_data\<close> returns is the content of \<open>noisy_latents_{t0}.pt\<close> in that directory, for
  \<open>t0\<close> the first scheduler timestep, moved to the device; and it does return it when the
  image and that file are there. \<open>denoise_step\<close> asks \<open>load_source_latents_t\<close> for the
  latents of its timestep in the same directory, fails when that fails, and otherwise gives
  the UNet the source latents followed by two copies of the current latent.
\<close>

theorem cached_latents_directory:
  "latents_dir cfg =
     latents_path cfg
       @ (if latents_path cfg = [] \<or> last (latents_path cfg) = CHR ''/'' then [] else ''/'')
       @ fst (os_path_splitext (os_path_basename (image_path cfg)))
   \<and> (\<forall>im noisy. get_data E cfg dev sch fs = Inr (im, noisy) \<longrightarrow>
         (\<exists>t0 rest loaded.
            sched_timesteps E sch = t0 # rest
          \<and> fs (latents_dir cfg
                  @ (if latents_dir cfg = [] \<or> last (latents_dir cfg) = CHR ''/''
                     then [] else ''/'')
                  @ ''noisy_latents_'' @ str_int t0 @ ''.pt'') = Some (TensorFile loaded)
          \<and> noisy = latents_to E dev loaded))
   \<and> (\<forall>opened t0 rest loaded.
         fs (image_path cfg) = Some (ImageFile opened)
       \<and> sched_timesteps E sch = t0 # rest
       \<and> fs (latents_dir cfg
               @ (if latents_dir cfg = [] \<or> last (latents_dir cfg) = CHR ''/''
                  then [] else ''/'')
               @ ''noisy_latents_'' @ str_int t0 @ ''.pt'') = Some (TensorFile loaded)
       \<longrightarrow> (\<exists>im. get_data E cfg dev sch fs = Inr (im, latents_to E dev loaded)))
   \<and> (\<forall>src. load_source_latents_t E fs t (latents_dir (config self)) = Inr src \<longrightarrow>
         denoise_step E self fs x t =
           (case perform_guidance E (self\<lparr>pipe := register_time E (pipe self) t\<rparr>) x t
                   (unet E (register_time E (pipe self) t) (src @ x @ x) t
                      (pnp_guidance_embeds self @ text_embeds self)) of
              Inl e \<Rightarrow> Inl e
            | Inr d \<Rightarrow> Inr (d, self\<lparr>pipe := register_time E (pipe self) t\<rparr>)))
   \<and> (\<forall>e. load_source_latents_t E fs t (latents_dir (config self)) = Inl e \<longrightarrow>
         denoise_step E self fs x t = Inl e)"
proof (intro conjI allI impI)
  show "latents_dir cfg =
     latents_path cfg
       @ (if latents_path cfg = [] \<or> last (latents_path cfg) = CHR ''/'' then [] else ''/'')
       @ fst (os_path_splitext (os_path_basename (image_path cfg)))"
    by (rule latents_dir_eq)
next
  fix im noisy
  assume "get_data E cfg dev sch fs = Inr (im, noisy)"
  from get_data_InrD [OF this] show "\<exists>t0 rest loaded.
            sched_timesteps E sch = t0 # rest
          \<and> fs (latents_dir cfg
                  @ (if latents_dir cfg = [] \<or> last (latents_dir cfg) = CHR ''/''
                     then [] else ''/'')
                  @ ''noisy_latents_'' @ str_int t0 @ ''.pt'') = Some (TensorFile loaded)
          \<and> noisy = latents_to E dev loaded"
    unfolding latents_file_eq by blast
next
  fix opened t0 rest loaded
  assume a: "fs (image_path cfg) = Some (ImageFile opened)
       \<and> sched_timesteps E sch = t0 # rest
       \<and> fs (latents_dir cfg
               @ (if latents_dir cfg = [] \<or> last (latents_dir cfg) = CHR ''/''
                  then [] else ''/'')
               @ ''noisy_latents_'' @ str_int t0 @ ''.pt'') = Some (TensorFile loaded)"
  then have "fs (os_path_join (latents_path cfg)
               [fst (os_path_splitext (os_path_basename (image_path cfg))),
                ''noisy_latents_'' @ str_int t0 @ ''.pt'']) = Some (TensorFile loaded)"
    unfolding latents_file_eq by blast
  with a have g: "get_data E cfg dev sch fs =
           Inr (image_to E dev
                  (to_tensor E (pil_resize E (512, 512) LANCZOS (pil_convert E ''RGB'' opened))),
                latents_to E dev loaded)"
    by (intro get_data_Inr) blast+
  show "\<exists>im. get_data E cfg dev sch fs = Inr (im, latents_to E dev loaded)"
    by (simp add: g)
next
  fix src
  assume "load_source_latents_t E fs t (latents_dir (config self)) = Inr src"
  then show "denoise_step E self fs x t =
           (case perform_guidance E (self\<lparr>pipe := register_time E (pipe self) t\<rparr>) x t
                   (unet E (register_time E (pipe self) t) (src @ x @ x) t
                      (pnp_guidance_embeds self @ text_embeds self)) of
              Inl e \<Rightarrow> Inl e
            | Inr d \<Rightarrow> Inr (d, self\<lparr>pipe := register_time E (pipe self) t\<rparr>))"
    by (rule denoise_step_loaded)
next
  fix e
  assume "load_source_latents_t E fs t (latents_dir (config self)) = Inl e"
  then show "denoise_step E self fs x t = Inl e"
    by (rule denoise_step_load_failed)
qed





theorem cached_latents_directory_witness:
  "latents_dir toy_config = ''latents/horse''
   \<and> get_data toy_lib toy_config ''cuda'' [41, 21, 1] toy_files = Inr (9, [5])
   \<and> toy_files ''latents/horse/noisy_latents_41.pt'' = Some (TensorFile [5])
   \<and> load_source_latents_t toy_lib toy_files 21 (latents_dir (config toy_pnp)) = Inr [4]
   \<and> denoise_step toy_lib toy_pnp toy_files [5] 21 =
       (case perform_guidance toy_lib (toy_pnp\<lparr>pipe := register_time toy_lib (pipe toy_pnp) 21\<rparr>)
               [5] 21
               (unet toy_lib (register_time toy_lib (pipe toy_pnp) 21) ([4] @ [5] @ [5]) 21
                  (pnp_guidance_embeds toy_pnp @ text_embeds toy_pnp)) of
          Inl e \<Rightarrow> Inl e
        | Inr d \<Rightarrow> Inr (d, toy_pnp\<lparr>pipe := register_time toy_lib (pipe toy_pnp) 21\<rparr>))"
proof -
  note T = cached_latents_directory [where cfg = toy_config and E = toy_lib
      and dev = "''cuda''" and sch = "[41, 21, 1]" and fs = toy_files and t = 21
      and self = toy_pnp and x = "[5]"]
  have d: "latents_dir toy_config = ''latents/horse''"
    by code_simp
  have g: "get_data toy_lib toy_config ''cuda'' [41, 21, 1] toy_files = Inr (9, [5])"
    by code_simp
  have f: "toy_files ''latents/horse/noisy_latents_41.pt'' = Some (TensorFile [5])"
    by code_simp
  have l: "load_source_latents_t toy_lib toy_files 21 (latents_dir (config toy_pnp)) = Inr [4]"
    by code_simp
  from T l have s: "denoise_step toy_lib toy_pnp toy_files [5] 21 =
       (case perform_guidance toy_lib (toy_pnp\<lparr>pipe := register_time toy_lib (pipe toy_pnp) 21\<rparr>)
               [5] 21
               (unet toy_lib (register_time toy_lib (pipe toy_pnp) 21) ([4] @ [5] @ [5]) 21
                  (pnp_guidance_embeds toy_pnp @ text_embeds toy_pnp)) of
          Inl e \<Rightarrow> Inl e
        | Inr d \<Rightarrow> Inr (d, toy_pnp\<lparr>pipe := register_time toy_lib (pipe toy_pnp) 21\<rparr>))"
    by blast
  from d g f l s show ?thesis by blast
qed

section \<open>The sampling loop\<close>






section \<open>The script: configuration and file-system writes\<close>




















end
